theory Spec2Isabelle
  imports
    Main
    "HOL-Library.AList"
    "HOL-Library.Char_ord"
    "HOL-Library.List_Lexorder"
    "HOL-Library.Multiset"
    "HOL-Library.Sublist"
begin

section \<open>Scalar expressions\<close>

text \<open>
  The scalar expressions of \<^verbatim>\<open>pymbolic\<close> that \<^verbatim>\<open>pytato/codegen.py\<close> builds or
  inspects: integer constants, variables, subscripts \<^verbatim>\<open>a[i, j]\<close>, sums, products,
  remainders (\<^verbatim>\<open>%\<close>, built by \<^verbatim>\<open>_indices_for_roll\<close>) and \<^verbatim>\<open>loopy\<close>'s reduction node.
  \<open>PyNone\<close> is Python's \<^verbatim>\<open>None\<close>, which \<^verbatim>\<open>_indices_for_axis_permutation\<close> leaves in
  an index tuple at positions no axis is mapped to.
\<close>

datatype scalar_expr =
    Constant int
  | PyNone
  | Variable string
  | Subscript scalar_expr "scalar_expr list"
  | Sum "scalar_expr list"
  | Product "scalar_expr list"
  | Remainder scalar_expr scalar_expr
  | Reduction "string list" scalar_expr

text \<open>Python's \<^verbatim>\<open>str\<close> of an integer, for the names \<^verbatim>\<open>f"_{d}"\<close> and \<^verbatim>\<open>f"_r{i}"\<close>.\<close>

definition digit_char :: "nat \<Rightarrow> char" where
  "digit_char d = ''0123456789'' ! d"

fun str_nat :: "nat \<Rightarrow> string" where
  "str_nat n = (if n < 10 then [digit_char n] else str_nat (n div 10) @ [digit_char (n mod 10)])"

declare str_nat.simps [simp del]

definition str_int :: "int \<Rightarrow> string" where
  "str_int i = (if i < 0 then ''-'' @ str_nat (nat (- i)) else str_nat (nat i))"

text \<open>The names \<^verbatim>\<open>f"_{d}"\<close> of positional indices and \<^verbatim>\<open>f"_r{k}"\<close> of reductions.\<close>

definition index_name :: "nat \<Rightarrow> string" where
  "index_name d = ''_'' @ str_nat d"

definition reduction_name :: "nat \<Rightarrow> string" where
  "reduction_name k = ''_r'' @ str_nat k"

text \<open>
  Python dictionaries keep insertion order and unique keys; they are association lists
  here, written with \<^const>\<open>AList.update\<close> (replace in place, or append at the end) and
  read with \<^const>\<open>map_of\<close>.
\<close>

type_synonym ('k, 'v) dict = "('k \<times> 'v) list"

definition keys :: "('k, 'v) dict \<Rightarrow> 'k list" where
  "keys d = map fst d"

text \<open>
  Modelled from the spec: the external scalar algebra \<^verbatim>\<open>scalar_expr.substitute\<close>
  (``external pure functions \<^verbatim>\<open>free_variables(expr)\<close> and
  \<^verbatim>\<open>substitute(expr, name \<rightarrow> expr)\<close>''), which is not under \<^verbatim>\<open>src/\<close>. Variables are
  replaced simultaneously; the bound names of a reduction are renamed when the
  substitution sends them to a variable.
\<close>

definition rename_iname :: "(string, scalar_expr) dict \<Rightarrow> string \<Rightarrow> string" where
  "rename_iname sub n = (case map_of sub n of Some (Variable m) \<Rightarrow> m | _ \<Rightarrow> n)"

fun substitute :: "scalar_expr \<Rightarrow> (string, scalar_expr) dict \<Rightarrow> scalar_expr" where
  "substitute (Constant c) sub = Constant c"
| "substitute PyNone sub = PyNone"
| "substitute (Variable n) sub = (case map_of sub n of Some e \<Rightarrow> e | None \<Rightarrow> Variable n)"
| "substitute (Subscript a ix) sub =
     Subscript (substitute a sub) (map (\<lambda>e. substitute e sub) ix)"
| "substitute (Sum es) sub = Sum (map (\<lambda>e. substitute e sub) es)"
| "substitute (Product es) sub = Product (map (\<lambda>e. substitute e sub) es)"
| "substitute (Remainder a b) sub = Remainder (substitute a sub) (substitute b sub)"
| "substitute (Reduction inames e) sub =
     Reduction (map (rename_iname sub) inames) (substitute e sub)"

text \<open>
  Modelled from the spec: \<^verbatim>\<open>scalar_expr.get_dependencies\<close>, the free variables of a
  scalar expression (the names bound by a reduction are not free in it).
\<close>

fun get_dependencies :: "scalar_expr \<Rightarrow> string set" where
  "get_dependencies (Constant c) = {}"
| "get_dependencies PyNone = {}"
| "get_dependencies (Variable n) = {n}"
| "get_dependencies (Subscript a ix) = get_dependencies a \<union> (\<Union>e \<in> set ix. get_dependencies e)"
| "get_dependencies (Sum es) = (\<Union>e \<in> set es. get_dependencies e)"
| "get_dependencies (Product es) = (\<Union>e \<in> set es. get_dependencies e)"
| "get_dependencies (Remainder a b) = get_dependencies a \<union> get_dependencies b"
| "get_dependencies (Reduction inames e) = get_dependencies e - set inames"

section \<open>Expression nodes\<close>

text \<open>
  \<^verbatim>\<open>pytato/array.py\<close> is not among the sources; the node kinds and their fields are
  read off the constructor calls of \<^verbatim>\<open>CopyMapper\<close> and the attribute accesses of the
  two source files. A shape component is a scalar expression (what \<^verbatim>\<open>codegen.py\<close>
  handles: an integer or a quasi-affine expression) or a node (the
  \<^verbatim>\<open>isinstance(s, Array)\<close> branch of \<^verbatim>\<open>transform.py\<close>). Element types, tags and
  wrapped data are opaque.
\<close>

type_synonym dtype = string
type_synonym tags = "string list"
type_synonym array_data = "int list"

datatype 'a dim = ScalarDim scalar_expr | ArrayDim 'a

datatype array =
    Placeholder string "array dim list" dtype tags
  | DataWrapper string array_data "array dim list" tags
  | SizeParam string tags
  | IndexLambda scalar_expr "array dim list" dtype "(string, array) dict" tags
  | MatrixProduct array array tags
  | Stack "array list" nat tags
  | Concatenate "array list" nat tags
  | Roll array int nat tags
  | AxisPermutation array "nat list" tags
  | Slice array "int list" "int list" tags
  | Reshape array "nat list" tags
  | DistributedSend array
  | DistributedRecv array

type_synonym shape_type = "array dim list"

section \<open>Errors\<close>

datatype error =
    AssertionError
  | IndexError
  | KeyError
  | ValueError
  | UnsupportedArrayError
  | UnsupportedExpressionError
  | RecursionError

section \<open>Generated array expressions\<close>

type_synonym reduction_bounds_t = "(string, scalar_expr \<times> scalar_expr) dict"

text \<open>
  \<^verbatim>\<open>LoopyExpressionContext\<close>. Its field \<^verbatim>\<open>state\<close> is a reference to the one
  \<^verbatim>\<open>CodeGenState\<close> of the call; the model passes that state beside the context.
\<close>

record loopy_expression_context =
  depends_on :: "string set"
  local_namespace :: "(string, array) dict"
  reduction_bounds :: reduction_bounds_t

definition update_depends_on ::
  "loopy_expression_context \<Rightarrow> string set \<Rightarrow> loopy_expression_context" where
  "update_depends_on ctx other = ctx\<lparr>depends_on := depends_on ctx \<union> other\<rparr>"

text \<open>
  \<^verbatim>\<open>StoredResult(name, depends_on)\<close> and
  \<^verbatim>\<open>InlinedResult(expr, reduction_bounds, depends_on)\<close>.
  (\<^verbatim>\<open>SubstitutionRuleResult\<close> is an empty class that nothing constructs.)
\<close>

datatype implemented_result =
    StoredResult string "string set"
  | InlinedResult scalar_expr reduction_bounds_t "string set"

text \<open>
  The loop of \<^verbatim>\<open>InlinedResult.to_loopy_expression\<close> over
  \<^verbatim>\<open>enumerate(self.reduction_bounds.items())\<close>: \<open>i\<close> is the running index, \<open>sub\<close> the
  substitution being built and \<open>rb\<close> the context's reduction bounds.
\<close>

fun rename_loop ::
  "nat \<Rightarrow> nat \<Rightarrow> reduction_bounds_t \<Rightarrow> (string, scalar_expr) dict \<Rightarrow> reduction_bounds_t
   \<Rightarrow> error + ((string, scalar_expr) dict \<times> reduction_bounds_t)" where
  "rename_loop i reduction_start [] sub rb = Inr (sub, rb)"
| "rename_loop i reduction_start ((old_name, bounds) # rest) sub rb =
     (let new_name = reduction_name (i + reduction_start) in
      if new_name \<in> set (keys rb) then Inl AssertionError
      else rename_loop (Suc i) reduction_start rest
             (AList.update old_name (Variable new_name) sub)
             (AList.update new_name bounds rb))"

definition index_substitutions :: "scalar_expr list \<Rightarrow> (string, scalar_expr) dict" where
  "index_substitutions indices =
     map (\<lambda>(d, i). (index_name d, i)) (enumerate 0 indices)"

fun to_loopy_expression ::
  "implemented_result \<Rightarrow> scalar_expr list \<Rightarrow> loopy_expression_context
   \<Rightarrow> error + (scalar_expr \<times> loopy_expression_context)" where
  "to_loopy_expression (StoredResult name deps) indices expr_context =
     (let expr_context = update_depends_on expr_context deps in
      if indices = [] then Inr (Variable name, expr_context)
      else Inr (Subscript (Variable name) indices, expr_context))"
| "to_loopy_expression (InlinedResult expr rbounds deps) indices expr_context =
     (let substitutions = index_substitutions indices;
          reduction_start = length (reduction_bounds expr_context)
      in case rename_loop 0 reduction_start rbounds substitutions
                (reduction_bounds expr_context) of
           Inl err \<Rightarrow> Inl err
         | Inr (substitutions, rb) \<Rightarrow>
             (let expr_context = update_depends_on (expr_context\<lparr>reduction_bounds := rb\<rparr>) deps
              in Inr (substitute expr substitutions, expr_context)))"

section \<open>Iteration domains\<close>

text \<open>
  \<^verbatim>\<open>islpy\<close> is external. A basic set is kept as what \<^verbatim>\<open>domain_for_shape\<close> puts into
  it: the names of its set dimensions and of its parameters (both as given to
  \<^verbatim>\<open>isl.Space.create_from_names\<close>) and the conjunction of the constraints added with
  \<^verbatim>\<open>dom &= ...\<close>, in order. \<open>LowerBound l x\<close> is \<open>l \<le> x\<close> and \<open>UpperBound x u\<close> is
  \<open>x < u\<close>.
\<close>

datatype constraint = LowerBound scalar_expr string | UpperBound string scalar_expr

record basic_set =
  set_names :: "string list"
  param_names :: "string list"
  constraints :: "constraint list"

definition shape_constraints :: "string list \<Rightarrow> scalar_expr list \<Rightarrow> constraint list" where
  "shape_constraints dim_names shape =
     concat (map (\<lambda>(iname, dim). [LowerBound (Constant 0) iname, UpperBound iname dim])
               (zip dim_names shape))"

definition reduction_constraints :: "reduction_bounds_t \<Rightarrow> constraint list" where
  "reduction_constraints reductions =
     concat (map (\<lambda>(iname, left, right). [LowerBound left iname, UpperBound iname right])
               reductions)"

definition domain_for_shape ::
  "string list \<Rightarrow> scalar_expr list \<Rightarrow> reduction_bounds_t \<Rightarrow> error + basic_set" where
  "domain_for_shape dim_names shape reductions =
     (if length dim_names \<noteq> length shape then Inl AssertionError
      else
        let param_names_set =
              (\<Union>dim \<in> set shape. get_dependencies dim)
              \<union> (\<Union>(iname, left, right) \<in> set reductions.
                    get_dependencies left \<union> get_dependencies right);
            set_names = sort (dim_names @ keys reductions);
            param_names = sorted_list_of_set param_names_set
        in Inr \<lparr>set_names = set_names, param_names = param_names,
                 constraints = shape_constraints dim_names shape
                                 @ reduction_constraints reductions\<rparr>)"


section \<open>The mapper framework of \<^verbatim>\<open>pytato/transform.py\<close>\<close>



subsection \<open>\<^verbatim>\<open>WalkMapper\<close>\<close>






subsection \<open>\<^verbatim>\<open>DependencyMapper\<close>\<close>

text \<open>
  \<^verbatim>\<open>self.cache\<close> is a dictionary keyed by nodes; only lookups and stores are made, so it
  is a map here. \<open>dep_rec\<close> is the memoising \<^verbatim>\<open>DependencyMapper.rec\<close>, \<open>dep_dispatch\<close> the
  call \<^verbatim>\<open>super().rec(expr)\<close>: the \<^verbatim>\<open>map_...\<close> method of the node's kind, or
  \<^verbatim>\<open>handle_unsupported_array\<close> where the class has none. The helper loops return the
  argument list of \<^verbatim>\<open>combine\<close> in order.
\<close>

type_synonym dep_cache = "array \<rightharpoonup> array set"

definition combine :: "array set list \<Rightarrow> array set" where
  "combine args = fold (\<lambda>b a. a \<union> b) args {}"

function dep_rec :: "array \<Rightarrow> dep_cache \<Rightarrow> error + (array set \<times> dep_cache)"
  and dep_dispatch :: "array \<Rightarrow> dep_cache \<Rightarrow> error + (array set \<times> dep_cache)"
  and dep_arrays :: "array list \<Rightarrow> dep_cache \<Rightarrow> error + (array set list \<times> dep_cache)"
  and dep_shape :: "array dim list \<Rightarrow> dep_cache \<Rightarrow> error + (array set list \<times> dep_cache)"
  and dep_bindings :: "(string, array) dict \<Rightarrow> dep_cache \<Rightarrow> error + (array set list \<times> dep_cache)"
where
  "dep_rec expr cache =
     (case cache expr of
        Some result \<Rightarrow> Inr (result, cache)
      | None \<Rightarrow>
          (case dep_dispatch expr cache of
             Inl err \<Rightarrow> Inl err
           | Inr (result, cache) \<Rightarrow> Inr (result, cache(expr \<mapsto> result))))"
| "dep_dispatch (IndexLambda e shp d b t) cache =
     (case dep_bindings b cache of
        Inl err \<Rightarrow> Inl err
      | Inr (rs1, cache) \<Rightarrow>
          (case dep_shape shp cache of
             Inl err \<Rightarrow> Inl err
           | Inr (rs2, cache) \<Rightarrow>
               Inr (combine ({IndexLambda e shp d b t} # rs1 @ rs2), cache)))"
| "dep_dispatch (Placeholder n shp d t) cache =
     (case dep_shape shp cache of
        Inl err \<Rightarrow> Inl err
      | Inr (rs, cache) \<Rightarrow> Inr (combine ({Placeholder n shp d t} # rs), cache))"
| "dep_dispatch (DataWrapper n da shp t) cache =
     (case dep_shape shp cache of
        Inl err \<Rightarrow> Inl err
      | Inr (rs, cache) \<Rightarrow> Inr (combine ({DataWrapper n da shp t} # rs), cache))"
| "dep_dispatch (SizeParam n t) cache = Inr ({SizeParam n t}, cache)"
| "dep_dispatch (MatrixProduct x1 x2 t) cache =
     (case dep_rec x1 cache of
        Inl err \<Rightarrow> Inl err
      | Inr (r1, cache) \<Rightarrow>
          (case dep_rec x2 cache of
             Inl err \<Rightarrow> Inl err
           | Inr (r2, cache) \<Rightarrow> Inr (combine [{MatrixProduct x1 x2 t}, r1, r2], cache)))"
| "dep_dispatch (Stack xs ax t) cache =
     (case dep_arrays xs cache of
        Inl err \<Rightarrow> Inl err
      | Inr (rs, cache) \<Rightarrow> Inr (combine ({Stack xs ax t} # rs), cache))"
| "dep_dispatch (Roll a sh ax t) cache =
     (case dep_rec a cache of
        Inl err \<Rightarrow> Inl err
      | Inr (r, cache) \<Rightarrow> Inr (combine [{Roll a sh ax t}, r], cache))"
| "dep_dispatch (AxisPermutation a axes t) cache =
     (case dep_rec a cache of
        Inl err \<Rightarrow> Inl err
      | Inr (r, cache) \<Rightarrow> Inr (combine [{AxisPermutation a axes t}, r], cache))"
| "dep_dispatch (Slice a starts stops t) cache =
     (case dep_rec a cache of
        Inl err \<Rightarrow> Inl err
      | Inr (r, cache) \<Rightarrow> Inr (combine [{Slice a starts stops t}, r], cache))"
| "dep_dispatch (Reshape a ns t) cache =
     (case dep_rec a cache of
        Inl err \<Rightarrow> Inl err
      | Inr (r, cache) \<Rightarrow> Inr (combine [{Reshape a ns t}, r], cache))"
| "dep_dispatch (Concatenate xs ax t) cache =
     (case dep_arrays xs cache of
        Inl err \<Rightarrow> Inl err
      | Inr (rs, cache) \<Rightarrow> Inr (combine ({Concatenate xs ax t} # rs), cache))"
| "dep_dispatch (DistributedSend a) cache = Inl UnsupportedArrayError"
| "dep_dispatch (DistributedRecv a) cache = Inl UnsupportedArrayError"
| "dep_arrays [] cache = Inr ([], cache)"
| "dep_arrays (ary # rest) cache =
     (case dep_rec ary cache of
        Inl err \<Rightarrow> Inl err
      | Inr (r, cache) \<Rightarrow>
          (case dep_arrays rest cache of
             Inl err \<Rightarrow> Inl err
           | Inr (rs, cache) \<Rightarrow> Inr (r # rs, cache)))"
| "dep_shape [] cache = Inr ([], cache)"
| "dep_shape (ScalarDim e # rest) cache = dep_shape rest cache"
| "dep_shape (ArrayDim a # rest) cache =
     (case dep_rec a cache of
        Inl err \<Rightarrow> Inl err
      | Inr (r, cache) \<Rightarrow>
          (case dep_shape rest cache of
             Inl err \<Rightarrow> Inl err
           | Inr (rs, cache) \<Rightarrow> Inr (r # rs, cache)))"
| "dep_bindings [] cache = Inr ([], cache)"
| "dep_bindings ((name, bnd) # rest) cache =
     (case dep_rec bnd cache of
        Inl err \<Rightarrow> Inl err
      | Inr (r, cache) \<Rightarrow>
          (case dep_bindings rest cache of
             Inl err \<Rightarrow> Inl err
           | Inr (rs, cache) \<Rightarrow> Inr (r # rs, cache)))"
  by pat_completeness auto
termination
  by (relation "measure (\<lambda>x. case x of
        Inl (Inl (a, c)) \<Rightarrow> 2 * size a + 1
      | Inl (Inr (a, c)) \<Rightarrow> 2 * size a
      | Inr (Inl (xs, c)) \<Rightarrow> 2 * size_list size xs
      | Inr (Inr (Inl (ds, c))) \<Rightarrow> 2 * size_list (size_dim size) ds
      | Inr (Inr (Inr (bs, c))) \<Rightarrow> 2 * size_list (size_prod (\<lambda>_. 0) size) bs)") auto



subsection \<open>Reachability\<close>






subsection \<open>\<^verbatim>\<open>CopyMapper\<close>\<close>

text \<open>
  \<open>copy_rec\<close> is the memoising \<^verbatim>\<open>CopyMapper.rec\<close>, \<open>copy_dispatch\<close> the call
  \<^verbatim>\<open>super().rec(expr)\<close>. The class defines \<^verbatim>\<open>map_index_lambda\<close>, \<^verbatim>\<open>map_placeholder\<close>,
  \<^verbatim>\<open>map_matrix_product\<close>, \<^verbatim>\<open>map_stack\<close>, \<^verbatim>\<open>map_roll\<close>, \<^verbatim>\<open>map_axis_permutation\<close>,
  \<^verbatim>\<open>map_slice\<close>, \<^verbatim>\<open>map_data_wrapper\<close>, \<^verbatim>\<open>map_size_param\<close> and \<^verbatim>\<open>map_distributed_send\<close>
  (which passes \<^verbatim>\<open>expr.data\<close> on without copying it); for the other kinds
  \<^verbatim>\<open>Mapper.rec\<close> calls \<^verbatim>\<open>handle_unsupported_array\<close>.
\<close>

type_synonym copy_cache = "array \<rightharpoonup> array"

function copy_rec :: "array \<Rightarrow> copy_cache \<Rightarrow> error + (array \<times> copy_cache)"
  and copy_dispatch :: "array \<Rightarrow> copy_cache \<Rightarrow> error + (array \<times> copy_cache)"
  and copy_arrays :: "array list \<Rightarrow> copy_cache \<Rightarrow> error + (array list \<times> copy_cache)"
  and copy_shape :: "array dim list \<Rightarrow> copy_cache \<Rightarrow> error + (array dim list \<times> copy_cache)"
  and copy_bindings ::
    "(string, array) dict \<Rightarrow> copy_cache \<Rightarrow> error + ((string, array) dict \<times> copy_cache)"
where
  "copy_rec expr cache =
     (case cache expr of
        Some result \<Rightarrow> Inr (result, cache)
      | None \<Rightarrow>
          (case copy_dispatch expr cache of
             Inl err \<Rightarrow> Inl err
           | Inr (result, cache) \<Rightarrow> Inr (result, cache(expr \<mapsto> result))))"
| "copy_dispatch (IndexLambda e shp d b t) cache =
     (case copy_bindings b cache of
        Inl err \<Rightarrow> Inl err
      | Inr (bindings, cache) \<Rightarrow>
          (case copy_shape shp cache of
             Inl err \<Rightarrow> Inl err
           | Inr (shape, cache) \<Rightarrow> Inr (IndexLambda e shape d bindings t, cache)))"
| "copy_dispatch (Placeholder n shp d t) cache =
     (case copy_shape shp cache of
        Inl err \<Rightarrow> Inl err
      | Inr (shape, cache) \<Rightarrow> Inr (Placeholder n shape d t, cache))"
| "copy_dispatch (MatrixProduct x1 x2 t) cache =
     (case copy_rec x1 cache of
        Inl err \<Rightarrow> Inl err
      | Inr (y1, cache) \<Rightarrow>
          (case copy_rec x2 cache of
             Inl err \<Rightarrow> Inl err
           | Inr (y2, cache) \<Rightarrow> Inr (MatrixProduct y1 y2 t, cache)))"
| "copy_dispatch (Stack xs ax t) cache =
     (case copy_arrays xs cache of
        Inl err \<Rightarrow> Inl err
      | Inr (arrays, cache) \<Rightarrow> Inr (Stack arrays ax t, cache))"
| "copy_dispatch (Roll a sh ax t) cache =
     (case copy_rec a cache of
        Inl err \<Rightarrow> Inl err
      | Inr (y, cache) \<Rightarrow> Inr (Roll y sh ax t, cache))"
| "copy_dispatch (AxisPermutation a axes t) cache =
     (case copy_rec a cache of
        Inl err \<Rightarrow> Inl err
      | Inr (y, cache) \<Rightarrow> Inr (AxisPermutation y axes t, cache))"
| "copy_dispatch (Slice a starts stops t) cache =
     (case copy_rec a cache of
        Inl err \<Rightarrow> Inl err
      | Inr (y, cache) \<Rightarrow> Inr (Slice y starts stops t, cache))"
| "copy_dispatch (DataWrapper n da shp t) cache =
     (case copy_shape shp cache of
        Inl err \<Rightarrow> Inl err
      | Inr (shape, cache) \<Rightarrow> Inr (DataWrapper n da shape t, cache))"
| "copy_dispatch (SizeParam n t) cache = Inr (SizeParam n t, cache)"
| "copy_dispatch (DistributedSend a) cache = Inr (DistributedSend a, cache)"
| "copy_dispatch (Reshape a ns t) cache = Inl UnsupportedArrayError"
| "copy_dispatch (Concatenate xs ax t) cache = Inl UnsupportedArrayError"
| "copy_dispatch (DistributedRecv a) cache = Inl UnsupportedArrayError"
| "copy_arrays [] cache = Inr ([], cache)"
| "copy_arrays (arr # rest) cache =
     (case copy_rec arr cache of
        Inl err \<Rightarrow> Inl err
      | Inr (y, cache) \<Rightarrow>
          (case copy_arrays rest cache of
             Inl err \<Rightarrow> Inl err
           | Inr (ys, cache) \<Rightarrow> Inr (y # ys, cache)))"
| "copy_shape [] cache = Inr ([], cache)"
| "copy_shape (ScalarDim e # rest) cache =
     (case copy_shape rest cache of
        Inl err \<Rightarrow> Inl err
      | Inr (ds, cache) \<Rightarrow> Inr (ScalarDim e # ds, cache))"
| "copy_shape (ArrayDim a # rest) cache =
     (case copy_rec a cache of
        Inl err \<Rightarrow> Inl err
      | Inr (y, cache) \<Rightarrow>
          (case copy_shape rest cache of
             Inl err \<Rightarrow> Inl err
           | Inr (ds, cache) \<Rightarrow> Inr (ArrayDim y # ds, cache)))"
| "copy_bindings [] cache = Inr ([], cache)"
| "copy_bindings ((name, subexpr) # rest) cache =
     (case copy_rec subexpr cache of
        Inl err \<Rightarrow> Inl err
      | Inr (y, cache) \<Rightarrow>
          (case copy_bindings rest cache of
             Inl err \<Rightarrow> Inl err
           | Inr (bs, cache) \<Rightarrow> Inr ((name, y) # bs, cache)))"
  by pat_completeness auto
termination
  by (relation "measure (\<lambda>x. case x of
        Inl (Inl (a, c)) \<Rightarrow> 2 * size a + 1
      | Inl (Inr (a, c)) \<Rightarrow> 2 * size a
      | Inr (Inl (xs, c)) \<Rightarrow> 2 * size_list size xs
      | Inr (Inr (Inl (ds, c))) \<Rightarrow> 2 * size_list (size_dim size) ds
      | Inr (Inr (Inr (bs, c))) \<Rightarrow> 2 * size_list (size_prod (\<lambda>_. 0) size) bs)") auto

text \<open>
  \<^verbatim>\<open>copy_dict_of_named_arrays(source_dict, copy_mapper)\<close>, with the cache the given mapper
  holds when it is called.
\<close>

fun copy_items ::
  "(string, array) dict \<Rightarrow> copy_cache \<Rightarrow> error + ((string, array) dict \<times> copy_cache)" where
  "copy_items [] cache = Inr ([], cache)"
| "copy_items ((name, val) # rest) cache =
     (case copy_rec val cache of
        Inl err \<Rightarrow> Inl err
      | Inr (y, cache) \<Rightarrow>
          (case copy_items rest cache of
             Inl err \<Rightarrow> Inl err
           | Inr (ys, cache) \<Rightarrow> Inr ((name, y) # ys, cache)))"

definition copy_dict_of_named_arrays ::
  "(string, array) dict \<Rightarrow> copy_cache \<Rightarrow> error + ((string, array) dict \<times> copy_cache)" where
  "copy_dict_of_named_arrays source_dict cache =
     (if source_dict = [] then Inr ([], cache) else copy_items source_dict cache)"

text \<open>
  The kinds \<^verbatim>\<open>CopyMapper\<close> has a rule for, through the whole graph below a node. The
  operand of a \<^verbatim>\<open>DistributedSend\<close> is not looked at.
\<close>

function copy_supported :: "array \<Rightarrow> bool"
  and copy_supported_dims :: "array dim list \<Rightarrow> bool" where
  "copy_supported (Placeholder n shp d t) = copy_supported_dims shp"
| "copy_supported (DataWrapper n da shp t) = copy_supported_dims shp"
| "copy_supported (SizeParam n t) = True"
| "copy_supported (IndexLambda e shp d b t) =
     (list_all (\<lambda>p. copy_supported (snd p)) b \<and> copy_supported_dims shp)"
| "copy_supported (MatrixProduct x1 x2 t) = (copy_supported x1 \<and> copy_supported x2)"
| "copy_supported (Stack xs ax t) = list_all copy_supported xs"
| "copy_supported (Concatenate xs ax t) = False"
| "copy_supported (Roll a sh ax t) = copy_supported a"
| "copy_supported (AxisPermutation a axes t) = copy_supported a"
| "copy_supported (Slice a starts stops t) = copy_supported a"
| "copy_supported (Reshape a ns t) = False"
| "copy_supported (DistributedSend a) = True"
| "copy_supported (DistributedRecv a) = False"
| "copy_supported_dims [] = True"
| "copy_supported_dims (ScalarDim e # ds) = copy_supported_dims ds"
| "copy_supported_dims (ArrayDim a # ds) = (copy_supported a \<and> copy_supported_dims ds)"
  by pat_completeness auto
termination
proof (relation "measure (\<lambda>x. case x of
          Inl a \<Rightarrow> size a
        | Inr ds \<Rightarrow> size_list (size_dim size) ds)", goal_cases)
  case (4 e shp d b t x)
  then have "size (snd x) < Suc (size_list (size_prod (\<lambda>_. 0) size) b)"
    by (induction b) auto
  then show ?case by simp
next
  case (8 xs ax t x)
  then have "size x < Suc (size_list size xs)"
    by (induction xs) auto
  then show ?case by simp
qed auto

text \<open>The invariant of the copy cache: every entry maps a node to an equal node.\<close>

definition cache_id :: "copy_cache \<Rightarrow> bool" where
  "cache_id c = (\<forall>k v. c k = Some v \<longrightarrow> v = k)"

section \<open>Code generation: \<^verbatim>\<open>pytato/codegen.py\<close>\<close>

subsection \<open>The kernel being built\<close>

text \<open>
  \<^verbatim>\<open>loopy\<close> is external. A kernel is kept as the four fields the code generator appends
  to: arguments, temporary variables, domains and instructions. An instruction is what
  \<^verbatim>\<open>make_assignment\<close> is given.
\<close>

datatype kernel_arg =
    ValueArg string dtype
  | GlobalArg string "scalar_expr list" dtype bool

datatype address_space = AddressSpaceGlobal | AddressSpaceAuto

record temporary_variable =
  tv_name :: string
  tv_dtype :: dtype
  tv_shape :: "scalar_expr list"
  tv_address_space :: address_space

record instruction =
  assignee :: scalar_expr
  expression :: scalar_expr
  insn_id :: string
  within_inames :: "string set"
  insn_depends_on :: "string set"

record loop_kernel =
  args :: "kernel_arg list"
  temporary_variables :: "(string, temporary_variable) dict"
  domains :: "basic_set list"
  instructions :: "instruction list"

definition empty_kernel :: loop_kernel where
  "empty_kernel = \<lparr>args = [], temporary_variables = [], domains = [], instructions = []\<rparr>"

fun arg_name :: "kernel_arg \<Rightarrow> string" where
  "arg_name (ValueArg n d) = n"
| "arg_name (GlobalArg n shp d out) = n"

fun is_output_only :: "kernel_arg \<Rightarrow> bool" where
  "is_output_only (ValueArg n d) = False"
| "is_output_only (GlobalArg n shp d out) = out"

text \<open>The buffer an instruction stores to: the variable of its assignee.\<close>

fun assignee_name :: "instruction \<Rightarrow> string option" where
  "assignee_name i =
     (case assignee i of
        Variable n \<Rightarrow> Some n
      | Subscript (Variable n) ix \<Rightarrow> Some n
      | _ \<Rightarrow> None)"

subsection \<open>Attributes of nodes that \<^verbatim>\<open>pytato/array.py\<close> computes\<close>

text \<open>
  \<^verbatim>\<open>codegen.py\<close> reads \<^verbatim>\<open>expr.shape\<close> (as a tuple of scalar expressions: \<^verbatim>\<open>ShapeType\<close> and
  \<^verbatim>\<open>SymbolicIndex\<close> are the same type there), \<^verbatim>\<open>expr.ndim\<close> and \<^verbatim>\<open>expr.dtype\<close> of nodes of
  every kind. How \<^verbatim>\<open>array.py\<close> derives them is not among the sources, so they are
  parameters of the model; \<^verbatim>\<open>expr.ndim\<close> is the length of \<^verbatim>\<open>expr.shape\<close>.
\<close>

record array_attributes =
  shape_of :: "array \<Rightarrow> scalar_expr list"
  dtype_of :: "array \<Rightarrow> dtype"

definition ndim :: "array_attributes \<Rightarrow> array \<Rightarrow> nat" where
  "ndim A expr = length (shape_of A expr)"

subsection \<open>Name generators\<close>

text \<open>
  Modelled from the spec: the ``two monotonically-fresh name generators'' of the
  lowering state are \<^verbatim>\<open>pytools.UniqueNameGenerator\<close> objects, whose code is not under
  \<^verbatim>\<open>src/\<close>. A generator is the list of names it holds, oldest first. Called with
  \<^verbatim>\<open>based_on\<close> it tries \<^verbatim>\<open>based_on\<close>, \<^verbatim>\<open>based_on_0\<close>, \<^verbatim>\<open>based_on_1\<close>, ..., returns the first of
  them it does not hold and adds it. \<^verbatim>\<open>add_name\<close> adds a name it does not hold yet.
\<close>

definition unique_name_candidates :: "string list \<Rightarrow> string \<Rightarrow> string list" where
  "unique_name_candidates existing based_on =
     based_on # map (\<lambda>k. based_on @ ''_'' @ str_nat k) [0..<Suc (length existing)]"

definition unique_name :: "string list \<Rightarrow> string \<Rightarrow> string" where
  "unique_name existing based_on =
     (case find (\<lambda>c. c \<notin> set existing) (unique_name_candidates existing based_on) of
        Some c \<Rightarrow> c
      | None \<Rightarrow> based_on)"

definition add_name :: "string \<Rightarrow> string list \<Rightarrow> string list" where
  "add_name name existing = (if name \<in> set existing then existing else existing @ [name])"

subsection \<open>The lowering state\<close>

text \<open>
  \<^verbatim>\<open>CodeGenState\<close>. \<open>rule_runs\<close> is not a field of the class: it is the log of the nodes
  whose lowering rule got past the test \<^verbatim>\<open>if expr in state.results\<close> and started its
  body, oldest first; nothing reads it.
\<close>

record codegen_state =
  namespace :: "(string, array) dict"
  kernel :: loop_kernel
  results :: "(array, implemented_result) dict"
  var_name_gen :: "string list"
  insn_id_gen :: "string list"
  rule_runs :: "array list"

text \<open>
  A computation on the lowering state either raises or returns a value and the new
  state.
\<close>

type_synonym 'a cg = "codegen_state \<Rightarrow> error + ('a \<times> codegen_state)"

definition cg_return :: "'a \<Rightarrow> 'a cg" where
  "cg_return a = (\<lambda>s. Inr (a, s))"

definition cg_raise :: "error \<Rightarrow> 'a cg" where
  "cg_raise e = (\<lambda>s. Inl e)"

definition cg_bind :: "'a cg \<Rightarrow> ('a \<Rightarrow> 'b cg) \<Rightarrow> 'b cg" where
  "cg_bind m k = (\<lambda>s. case m s of Inl e \<Rightarrow> Inl e | Inr (a, s') \<Rightarrow> k a s')"

definition cg_lift :: "error + 'a \<Rightarrow> 'a cg" where
  "cg_lift r = (case r of Inl e \<Rightarrow> cg_raise e | Inr a \<Rightarrow> cg_return a)"

definition gen_var_name :: "string \<Rightarrow> string cg" where
  "gen_var_name based_on =
     (\<lambda>s. let name = unique_name (var_name_gen s) based_on
          in Inr (name, s\<lparr>var_name_gen := var_name_gen s @ [name]\<rparr>))"

definition gen_insn_id :: "string \<Rightarrow> string cg" where
  "gen_insn_id based_on =
     (\<lambda>s. let name = unique_name (insn_id_gen s) based_on
          in Inr (name, s\<lparr>insn_id_gen := insn_id_gen s @ [name]\<rparr>))"

definition update_kernel :: "(loop_kernel \<Rightarrow> loop_kernel) \<Rightarrow> unit cg" where
  "update_kernel f = (\<lambda>s. Inr ((), s\<lparr>kernel := f (kernel s)\<rparr>))"

text \<open>
  Every lowering rule starts with \<^verbatim>\<open>if expr in state.results: return state.results[expr]\<close>
  and ends with \<^verbatim>\<open>state.results[expr] = result; return result\<close>; \<open>memoized expr body\<close> is
  a rule with the body \<open>body\<close> between the two.
\<close>

definition memoized :: "array \<Rightarrow> implemented_result cg \<Rightarrow> implemented_result cg" where
  "memoized expr body =
     (\<lambda>s. case map_of (results s) expr of
            Some result \<Rightarrow> Inr (result, s)
          | None \<Rightarrow>
              (case body (s\<lparr>rule_runs := rule_runs s @ [expr]\<rparr>) of
                 Inl e \<Rightarrow> Inl e
               | Inr (result, s') \<Rightarrow>
                   Inr (result, s'\<lparr>results := AList.update expr result (results s')\<rparr>)))"

text \<open>A loop that runs a computation for each element of a list, in order.\<close>

fun cg_map :: "('a \<Rightarrow> 'b cg) \<Rightarrow> 'a list \<Rightarrow> 'b list cg" where
  "cg_map f [] = cg_return []"
| "cg_map f (x # xs) = cg_bind (f x) (\<lambda>y. cg_bind (cg_map f xs) (\<lambda>ys. cg_return (y # ys)))"

subsection \<open>Expression contexts and lookup\<close>

definition new_context :: "(string, array) dict \<Rightarrow> loopy_expression_context" where
  "new_context local_ns = \<lparr>depends_on = {}, local_namespace = local_ns, reduction_bounds = []\<rparr>"

definition lookup :: "loopy_expression_context \<Rightarrow> string \<Rightarrow> array cg" where
  "lookup expr_context name =
     (\<lambda>s. case map_of (local_namespace expr_context) name of
            Some a \<Rightarrow> Inr (a, s)
          | None \<Rightarrow>
              (case map_of (namespace s) name of
                 Some a \<Rightarrow> Inr (a, s)
               | None \<Rightarrow> Inl KeyError))"

definition from_loopy_expression ::
  "scalar_expr \<Rightarrow> loopy_expression_context \<Rightarrow> implemented_result" where
  "from_loopy_expression loopy_expr loopy_expr_context =
     InlinedResult loopy_expr (reduction_bounds loopy_expr_context)
       (depends_on loopy_expr_context)"

subsection \<open>\<^verbatim>\<open>InlinedExpressionGenMapper\<close>\<close>

text \<open>
  \<open>codegen_mapper\<close> is the \<^verbatim>\<open>CodeGenMapper\<close> the expression mapper calls back into. Sums,
  products and remainders are rebuilt from their mapped children (\<^verbatim>\<open>pymbolic\<close>'s
  \<^verbatim>\<open>IdentityMapper\<close>); constants are returned; the mapper has no \<^verbatim>\<open>map_reduction\<close>, and
  \<^verbatim>\<open>None\<close> is no scalar expression.
\<close>

fun exprgen ::
  "(array \<Rightarrow> implemented_result cg) \<Rightarrow> scalar_expr \<Rightarrow> loopy_expression_context
   \<Rightarrow> (scalar_expr \<times> loopy_expression_context) cg"
  and exprgen_list ::
  "(array \<Rightarrow> implemented_result cg) \<Rightarrow> scalar_expr list \<Rightarrow> loopy_expression_context
   \<Rightarrow> (scalar_expr list \<times> loopy_expression_context) cg"
where
  "exprgen codegen_mapper (Constant c) expr_context = cg_return (Constant c, expr_context)"
| "exprgen codegen_mapper PyNone expr_context = cg_raise ValueError"
| "exprgen codegen_mapper (Variable name) expr_context =
     cg_bind (lookup expr_context name) (\<lambda>a.
     cg_bind (codegen_mapper a) (\<lambda>result.
     cg_lift (to_loopy_expression result [] expr_context)))"
| "exprgen codegen_mapper (Subscript aggregate index) expr_context =
     (case aggregate of
        Variable name \<Rightarrow>
          cg_bind (lookup expr_context name) (\<lambda>a.
          cg_bind (codegen_mapper a) (\<lambda>result.
          cg_lift (to_loopy_expression result index expr_context)))
      | _ \<Rightarrow> cg_raise AssertionError)"
| "exprgen codegen_mapper (Sum children) expr_context =
     cg_bind (exprgen_list codegen_mapper children expr_context) (\<lambda>(cs, expr_context).
     cg_return (Sum cs, expr_context))"
| "exprgen codegen_mapper (Product children) expr_context =
     cg_bind (exprgen_list codegen_mapper children expr_context) (\<lambda>(cs, expr_context).
     cg_return (Product cs, expr_context))"
| "exprgen codegen_mapper (Remainder numerator denominator) expr_context =
     cg_bind (exprgen codegen_mapper numerator expr_context) (\<lambda>(n, expr_context).
     cg_bind (exprgen codegen_mapper denominator expr_context) (\<lambda>(d, expr_context).
     cg_return (Remainder n d, expr_context)))"
| "exprgen codegen_mapper (Reduction inames e) expr_context = cg_raise UnsupportedExpressionError"
| "exprgen_list codegen_mapper [] expr_context = cg_return ([], expr_context)"
| "exprgen_list codegen_mapper (child # rest) expr_context =
     cg_bind (exprgen codegen_mapper child expr_context) (\<lambda>(c, expr_context).
     cg_bind (exprgen_list codegen_mapper rest expr_context) (\<lambda>(cs, expr_context).
     cg_return (c # cs, expr_context)))"

subsection \<open>Utilities\<close>

definition dict_of_items :: "('k \<times> 'v) list \<Rightarrow> ('k, 'v) dict" where
  "dict_of_items items = fold (\<lambda>(k, v). AList.update k v) items []"

definition dict_update :: "('k, 'v) dict \<Rightarrow> ('k, 'v) dict \<Rightarrow> ('k, 'v) dict" where
  "dict_update d other = fold (\<lambda>(k, v). AList.update k v) other d"

definition is_int_dim :: "scalar_expr \<Rightarrow> bool" where
  "is_int_dim dim = (case dim of Constant c \<Rightarrow> True | _ \<Rightarrow> False)"

definition get_loopy_temporary :: "array_attributes \<Rightarrow> string \<Rightarrow> array \<Rightarrow> temporary_variable" where
  "get_loopy_temporary A name expr =
     (let is_shape_symbolic = \<not> list_all is_int_dim (shape_of A expr);
          address_space = (if is_shape_symbolic then AddressSpaceGlobal else AddressSpaceAuto)
      in \<lparr>tv_name = name, tv_dtype = dtype_of A expr, tv_shape = shape_of A expr,
          tv_address_space = address_space\<rparr>)"

text \<open>
  \<^verbatim>\<open>rename_reductions\<close>. The callable \<^verbatim>\<open>var_name_gen\<close> draws names from the state's
  generator, once per reduction and in the order of the context's dictionary.
\<close>

definition rename_reductions ::
  "scalar_expr \<Rightarrow> loopy_expression_context \<Rightarrow> (string \<Rightarrow> string cg)
   \<Rightarrow> (scalar_expr \<times> loopy_expression_context) cg" where
  "rename_reductions loopy_expr loopy_expr_context name_gen =
     cg_bind (cg_map name_gen (keys (reduction_bounds loopy_expr_context)))
       (\<lambda>new_reduction_inames.
          let substitutions =
                dict_of_items (zip (keys (reduction_bounds loopy_expr_context))
                                   (map Variable new_reduction_inames));
              result = substitute loopy_expr substitutions;
              new_reduction_bounds =
                dict_of_items
                  (map (\<lambda>(old_iname, bounds). (rename_iname substitutions old_iname, bounds))
                     (reduction_bounds loopy_expr_context))
          in cg_return (result, loopy_expr_context\<lparr>reduction_bounds := new_reduction_bounds\<rparr>))"

text \<open>\<^verbatim>\<open>add_store\<close>.\<close>

definition store_kernel ::
  "array_attributes \<Rightarrow> string \<Rightarrow> array \<Rightarrow> bool \<Rightarrow> basic_set \<Rightarrow> instruction
   \<Rightarrow> loop_kernel \<Rightarrow> loop_kernel" where
  "store_kernel A name expr output_to_temporary domain insn knl =
     (if output_to_temporary then
        knl\<lparr>temporary_variables :=
                 AList.update name (get_loopy_temporary A name expr) (temporary_variables knl),
               domains := domains knl @ [domain],
               instructions := instructions knl @ [insn]\<rparr>
      else
        knl\<lparr>args := args knl @ [GlobalArg name (shape_of A expr) (dtype_of A expr) True],
               domains := domains knl @ [domain],
               instructions := instructions knl @ [insn]\<rparr>)"

definition add_store ::
  "array_attributes \<Rightarrow> string \<Rightarrow> array \<Rightarrow> implemented_result \<Rightarrow> bool \<Rightarrow> string cg" where
  "add_store A name expr result output_to_temporary =
     cg_bind (cg_map (\<lambda>d. gen_var_name (name @ ''_dim'' @ str_nat d)) [0..<ndim A expr])
       (\<lambda>inames.
     let indices = map Variable inames in
     cg_bind (cg_lift (to_loopy_expression result indices (new_context [])))
       (\<lambda>(loopy_expr, loopy_expr_context).
     cg_bind (rename_reductions loopy_expr loopy_expr_context
                (\<lambda>old_name. gen_var_name (name @ old_name)))
       (\<lambda>(loopy_expr, loopy_expr_context).
     let assignee = (if indices \<noteq> [] then Subscript (Variable name) indices else Variable name) in
     cg_bind (gen_insn_id (name @ ''_store''))
       (\<lambda>insn_id.
     let insn = \<lparr>assignee = assignee, expression = loopy_expr, insn_id = insn_id,
                 within_inames = set inames,
                 insn_depends_on = depends_on loopy_expr_context\<rparr> in
     cg_bind (cg_lift (domain_for_shape inames (shape_of A expr)
                         (reduction_bounds loopy_expr_context)))
       (\<lambda>domain.
     cg_bind (update_kernel (store_kernel A name expr output_to_temporary domain insn))
       (\<lambda>_. cg_return insn_id))))))"

subsection \<open>\<^verbatim>\<open>CodeGenMapper\<close>: the lowering rules\<close>

text \<open>
  In every rule \<open>rec\<close> is \<^verbatim>\<open>self.rec\<close>, the dispatch that the mapper re-enters for the
  operands of a node.
\<close>

definition add_arg :: "kernel_arg \<Rightarrow> loop_kernel \<Rightarrow> loop_kernel" where
  "add_arg arg knl = knl\<lparr>args := args knl @ [arg]\<rparr>"

definition map_size_param :: "array_attributes \<Rightarrow> array \<Rightarrow> string \<Rightarrow> implemented_result cg" where
  "map_size_param A expr name =
     memoized expr
       (cg_bind (update_kernel (add_arg (ValueArg name (dtype_of A expr)))) (\<lambda>_.
        cg_return (StoredResult name {})))"

text \<open>
  The loop of \<^verbatim>\<open>handle_array_input_argument\<close> over the shape, with its two assertions
  after each component; all components share \<^verbatim>\<open>shape_context\<close>.
\<close>

fun shape_loop ::
  "(array \<Rightarrow> implemented_result cg) \<Rightarrow> scalar_expr list \<Rightarrow> loopy_expression_context
   \<Rightarrow> scalar_expr list cg" where
  "shape_loop rec [] shape_context = cg_return []"
| "shape_loop rec (component # rest) shape_context =
     cg_bind (exprgen rec component shape_context) (\<lambda>(c, shape_context).
       if depends_on shape_context \<noteq> {} then cg_raise AssertionError
       else if reduction_bounds shape_context \<noteq> [] then cg_raise AssertionError
       else cg_bind (shape_loop rec rest shape_context) (\<lambda>cs. cg_return (c # cs)))"

definition handle_array_input_argument ::
  "array_attributes \<Rightarrow> (array \<Rightarrow> implemented_result cg) \<Rightarrow> array \<Rightarrow> string
   \<Rightarrow> implemented_result cg" where
  "handle_array_input_argument A rec expr name =
     memoized expr
       (cg_bind (shape_loop rec (shape_of A expr) (new_context [])) (\<lambda>shp.
        cg_bind (update_kernel (add_arg (GlobalArg name shp (dtype_of A expr) False))) (\<lambda>_.
        cg_return (StoredResult name {}))))"

text \<open>The index tuples of \<^verbatim>\<open>map_matrix_product\<close>.\<close>

definition matmul_x1_inames :: "nat \<Rightarrow> scalar_expr list" where
  "matmul_x1_inames x1_ndim =
     map (\<lambda>i. if i = x1_ndim - 1 then Variable ''_r0'' else Variable (index_name i))
       [0..<x1_ndim]"

definition matmul_x2_inames :: "nat \<Rightarrow> nat \<Rightarrow> scalar_expr list" where
  "matmul_x2_inames x2_ndim len_x1_inames =
     map (\<lambda>i. if i = 0 then Variable ''_r0''
               else Variable (''_'' @ str_int (int i + int len_x1_inames - 2)))
       [0..<x2_ndim]"

definition first_dim :: "scalar_expr list \<Rightarrow> error + scalar_expr" where
  "first_dim shp = (case shp of [] \<Rightarrow> Inl IndexError | d # ds \<Rightarrow> Inr d)"

definition map_matrix_product ::
  "array_attributes \<Rightarrow> (array \<Rightarrow> implemented_result cg) \<Rightarrow> array \<Rightarrow> array \<Rightarrow> array
   \<Rightarrow> implemented_result cg" where
  "map_matrix_product A rec expr x1 x2 =
     memoized expr
       (cg_bind (rec x1) (\<lambda>x1_result.
        cg_bind (rec x2) (\<lambda>x2_result.
        cg_bind (cg_lift (first_dim (shape_of A x2))) (\<lambda>extent.
        let loopy_expr_context =
              (new_context [])\<lparr>reduction_bounds := [(''_r0'', (Constant 0, extent))]\<rparr>;
            x1_inames = matmul_x1_inames (ndim A x1);
            x2_inames = matmul_x2_inames (ndim A x2) (length x1_inames) in
        cg_bind (cg_lift (to_loopy_expression x1_result x1_inames loopy_expr_context))
          (\<lambda>(inner1, loopy_expr_context).
        cg_bind (cg_lift (to_loopy_expression x2_result x2_inames loopy_expr_context))
          (\<lambda>(inner2, loopy_expr_context).
        let inner_expr = Product [inner1, inner2];
            loopy_expr = Reduction [''_r0''] inner_expr;
            inlined_result = from_loopy_expression loopy_expr loopy_expr_context in
        cg_bind (gen_var_name ''matmul'') (\<lambda>output_name.
        cg_bind (add_store A output_name expr inlined_result True) (\<lambda>insn_id.
        cg_return (StoredResult output_name {insn_id})))))))))"

text \<open>
  \<^verbatim>\<open>map_stack\<close>. \<open>stack_loop\<close> is the loop over \<^verbatim>\<open>enumerate(expr.arrays)\<close>; it carries
  \<^verbatim>\<open>reduction_bounds\<close>, \<^verbatim>\<open>depends_on\<close> and \<^verbatim>\<open>new_insns\<close>.
\<close>

definition list_insert :: "nat \<Rightarrow> 'a \<Rightarrow> 'a list \<Rightarrow> 'a list" where
  "list_insert i x xs = take i xs @ [x] @ drop i xs"

fun stack_loop ::
  "(array \<Rightarrow> implemented_result cg) \<Rightarrow> string \<Rightarrow> nat \<Rightarrow> string list \<Rightarrow> nat \<Rightarrow> array list
   \<Rightarrow> reduction_bounds_t \<Rightarrow> string set \<Rightarrow> instruction list
   \<Rightarrow> (reduction_bounds_t \<times> string set \<times> instruction list) cg" where
  "stack_loop rec out_name axis inames i [] rbounds deps new_insns =
     cg_return (rbounds, deps, new_insns)"
| "stack_loop rec out_name axis inames i (array # rest) rbounds deps new_insns =
     (let indices = map Variable inames in
      cg_bind (rec array) (\<lambda>result.
      cg_bind (cg_lift (to_loopy_expression result indices (new_context [])))
        (\<lambda>(loopy_expr, loopy_expr_context).
      cg_bind (rename_reductions loopy_expr loopy_expr_context
                 (\<lambda>old_iname. gen_var_name (out_name @ old_iname)))
        (\<lambda>(loopy_expr, loopy_expr_context).
      let rbounds = dict_update rbounds (reduction_bounds loopy_expr_context);
          assignee_indices = list_insert axis (Constant (int i)) indices;
          assignee = Subscript (Variable out_name) assignee_indices in
      cg_bind (gen_insn_id (out_name @ ''_'' @ str_nat i)) (\<lambda>insn_id.
      let insn = \<lparr>assignee = assignee, expression = loopy_expr, insn_id = insn_id,
                  within_inames = set inames,
                  insn_depends_on = depends_on loopy_expr_context \<union> deps\<rparr> in
      stack_loop rec out_name axis inames (Suc i) rest rbounds {insn_id}
        (new_insns @ [insn]))))))"

definition stack_iname_index :: "nat \<Rightarrow> nat \<Rightarrow> nat" where
  "stack_iname_index axis j = (if j \<ge> axis then j + 1 else j)"

definition first_array_shape :: "array_attributes \<Rightarrow> array list \<Rightarrow> error + scalar_expr list" where
  "first_array_shape A arrays =
     (case arrays of [] \<Rightarrow> Inl IndexError | a # rest \<Rightarrow> Inr (shape_of A a))"

definition stack_kernel ::
  "string \<Rightarrow> temporary_variable \<Rightarrow> basic_set \<Rightarrow> instruction list \<Rightarrow> loop_kernel \<Rightarrow> loop_kernel"
  where
  "stack_kernel out_name out domain new_insns knl =
     knl\<lparr>domains := domains knl @ [domain],
            instructions := instructions knl @ new_insns,
            temporary_variables := AList.update out_name out (temporary_variables knl)\<rparr>"

definition map_stack ::
  "array_attributes \<Rightarrow> (array \<Rightarrow> implemented_result cg) \<Rightarrow> array \<Rightarrow> array list \<Rightarrow> nat
   \<Rightarrow> implemented_result cg" where
  "map_stack A rec expr arrays axis =
     memoized expr
       (cg_bind (gen_var_name ''stack'') (\<lambda>out_name.
        let out = get_loopy_temporary A out_name expr in
        cg_bind (cg_map (\<lambda>j. gen_var_name
                    (out_name @ ''_dim'' @ str_nat (stack_iname_index axis j)))
                  [0..<ndim A expr - 1]) (\<lambda>inames.
        cg_bind (stack_loop rec out_name axis inames 0 arrays [] {} [])
          (\<lambda>(rbounds, deps, new_insns).
        cg_bind (cg_lift (first_array_shape A arrays)) (\<lambda>shp.
        cg_bind (cg_lift (domain_for_shape inames shp rbounds)) (\<lambda>domain.
        cg_bind (update_kernel (stack_kernel out_name out domain new_insns)) (\<lambda>_.
        cg_return (StoredResult out_name deps))))))))"

text \<open>
  The index getters of the index-remapping kinds. \<^verbatim>\<open>a - b\<close> builds the sum of \<^verbatim>\<open>a\<close> and
  \<^verbatim>\<open>-b\<close>. \<^verbatim>\<open>_indices_for_slice\<close> reads \<^verbatim>\<open>expr.begin\<close>, the starts of the slice.
\<close>

definition index_vars :: "nat \<Rightarrow> scalar_expr list" where
  "index_vars n = map (\<lambda>d. Variable (index_name d)) [0..<n]"

definition indices_for_roll ::
  "array_attributes \<Rightarrow> array \<Rightarrow> int \<Rightarrow> nat \<Rightarrow> error + scalar_expr list" where
  "indices_for_roll A expr shift axis =
     (let indices = index_vars (ndim A expr) in
      if axis < length indices \<and> axis < length (shape_of A expr)
      then Inr (indices[axis :=
                  Remainder (Sum [indices ! axis, Constant (- shift)]) (shape_of A expr ! axis)])
      else Inl IndexError)"

fun axis_permutation_loop ::
  "nat \<Rightarrow> nat list \<Rightarrow> scalar_expr list \<Rightarrow> error + scalar_expr list" where
  "axis_permutation_loop from_index [] indices = Inr indices"
| "axis_permutation_loop from_index (to_index # rest) indices =
     (if to_index < length indices
      then axis_permutation_loop (Suc from_index) rest
             (indices[to_index := Variable (index_name from_index)])
      else Inl IndexError)"

definition indices_for_axis_permutation ::
  "array_attributes \<Rightarrow> array \<Rightarrow> nat list \<Rightarrow> error + scalar_expr list" where
  "indices_for_axis_permutation A expr axes =
     axis_permutation_loop 0 axes (replicate (ndim A expr) PyNone)"

fun slice_loop :: "nat \<Rightarrow> nat \<Rightarrow> int list \<Rightarrow> error + scalar_expr list" where
  "slice_loop d 0 begin = Inr []"
| "slice_loop d (Suc n) begin =
     (if d < length begin
      then (case slice_loop (Suc d) n begin of
              Inl e \<Rightarrow> Inl e
            | Inr rest \<Rightarrow>
                Inr (Sum [Variable (index_name d), Constant (begin ! d)] # rest))
      else Inl IndexError)"

definition indices_for_slice ::
  "array_attributes \<Rightarrow> array \<Rightarrow> int list \<Rightarrow> error + scalar_expr list" where
  "indices_for_slice A expr begin = slice_loop 0 (ndim A expr) begin"

definition handle_index_remapping ::
  "(array \<Rightarrow> implemented_result cg) \<Rightarrow> error + scalar_expr list \<Rightarrow> array \<Rightarrow> array
   \<Rightarrow> implemented_result cg" where
  "handle_index_remapping rec indices_getter expr array =
     memoized expr
       (cg_bind (cg_lift indices_getter) (\<lambda>indices.
        cg_bind (rec array) (\<lambda>result.
        cg_bind (cg_lift (to_loopy_expression result indices (new_context [])))
          (\<lambda>(loopy_expr, loopy_expr_context).
        cg_return (from_loopy_expression loopy_expr loopy_expr_context)))))"

definition map_index_lambda ::
  "(array \<Rightarrow> implemented_result cg) \<Rightarrow> array \<Rightarrow> scalar_expr \<Rightarrow> (string, array) dict
   \<Rightarrow> implemented_result cg" where
  "map_index_lambda rec expr e bindings =
     memoized expr
       (cg_bind (exprgen rec e (new_context bindings)) (\<lambda>(loopy_expr, loopy_expr_context).
        cg_return (from_loopy_expression loopy_expr loopy_expr_context)))"

text \<open>
  \<^verbatim>\<open>Mapper.rec\<close> for a \<^verbatim>\<open>CodeGenMapper\<close>: the rule of the node's kind, or
  \<^verbatim>\<open>handle_unsupported_array\<close> for the kinds the class has no rule for.
\<close>

fun mapper_rec ::
  "array_attributes \<Rightarrow> (array \<Rightarrow> implemented_result cg) \<Rightarrow> array \<Rightarrow> implemented_result cg"
  where
  "mapper_rec A rec (SizeParam n t) = map_size_param A (SizeParam n t) n"
| "mapper_rec A rec (Placeholder n shp d t) =
     handle_array_input_argument A rec (Placeholder n shp d t) n"
| "mapper_rec A rec (DataWrapper n da shp t) =
     handle_array_input_argument A rec (DataWrapper n da shp t) n"
| "mapper_rec A rec (MatrixProduct x1 x2 t) =
     map_matrix_product A rec (MatrixProduct x1 x2 t) x1 x2"
| "mapper_rec A rec (Stack arrays axis t) = map_stack A rec (Stack arrays axis t) arrays axis"
| "mapper_rec A rec (Roll a shift axis t) =
     handle_index_remapping rec (indices_for_roll A (Roll a shift axis t) shift axis)
       (Roll a shift axis t) a"
| "mapper_rec A rec (AxisPermutation a axes t) =
     handle_index_remapping rec (indices_for_axis_permutation A (AxisPermutation a axes t) axes)
       (AxisPermutation a axes t) a"
| "mapper_rec A rec (Slice a starts stops t) =
     handle_index_remapping rec (indices_for_slice A (Slice a starts stops t) starts)
       (Slice a starts stops t) a"
| "mapper_rec A rec (IndexLambda e shp d bindings t) =
     map_index_lambda rec (IndexLambda e shp d bindings t) e bindings"
| "mapper_rec A rec (Reshape a ns t) = cg_raise UnsupportedArrayError"
| "mapper_rec A rec (Concatenate xs ax t) = cg_raise UnsupportedArrayError"
| "mapper_rec A rec (DistributedSend a) = cg_raise UnsupportedArrayError"
| "mapper_rec A rec (DistributedRecv a) = cg_raise UnsupportedArrayError"

text \<open>
  The recursion of the mapper through \<^verbatim>\<open>self.rec\<close> is as deep as the graph, and deeper
  when a name of the namespace leads back to a node being lowered; Python then raises
  \<^verbatim>\<open>RecursionError\<close>. \<open>codegen_rec depth\<close> is the mapper with \<open>depth\<close> nested calls left.
\<close>

primrec codegen_rec :: "array_attributes \<Rightarrow> nat \<Rightarrow> array \<Rightarrow> implemented_result cg" where
  "codegen_rec A 0 = (\<lambda>expr. cg_raise RecursionError)"
| "codegen_rec A (Suc depth) = mapper_rec A (codegen_rec A depth)"

subsection \<open>The entry point \<^verbatim>\<open>generate_loopy\<close>\<close>

text \<open>
  The names of the \<^verbatim>\<open>InputArgumentBase\<close> nodes (\<^verbatim>\<open>Placeholder\<close>, \<^verbatim>\<open>DataWrapper\<close>,
  \<^verbatim>\<open>SizeParam\<close>).
\<close>

fun input_argument_name :: "array \<Rightarrow> string option" where
  "input_argument_name (Placeholder n shp d t) = Some n"
| "input_argument_name (DataWrapper n da shp t) = Some n"
| "input_argument_name (SizeParam n t) = Some n"
| "input_argument_name _ = None"

definition reserve_names :: "(string, array) dict \<Rightarrow> (string, array) dict \<Rightarrow> string list \<Rightarrow> string list"
  where
  "reserve_names ns outputs existing =
     fold add_name (keys outputs)
       (fold (\<lambda>val ex. case input_argument_name val of Some n \<Rightarrow> add_name n ex | None \<Rightarrow> ex)
          (map snd ns) existing)"

definition initial_state :: "(string, array) dict \<Rightarrow> (string, array) dict \<Rightarrow> codegen_state" where
  "initial_state ns outputs =
     \<lparr>namespace = ns, kernel = empty_kernel, results = [],
      var_name_gen = reserve_names ns outputs [], insn_id_gen = [], rule_runs = []\<rparr>"

fun store_outputs ::
  "array_attributes \<Rightarrow> nat \<Rightarrow> (string, array) dict \<Rightarrow> unit cg" where
  "store_outputs A depth [] = cg_return ()"
| "store_outputs A depth ((name, expr) # rest) =
     cg_bind (codegen_rec A depth expr) (\<lambda>result.
     cg_bind (add_store A name expr result False) (\<lambda>_.
     store_outputs A depth rest))"

definition generate_code ::
  "array_attributes \<Rightarrow> nat \<Rightarrow> (string, array) dict \<Rightarrow> unit cg" where
  "generate_code A depth outputs =
     (\<lambda>s. cg_bind (cg_map (\<lambda>(name, val). codegen_rec A depth val) (namespace s)) (\<lambda>_.
          store_outputs A depth outputs) s)"

fun data_wrapper_data :: "array \<Rightarrow> array_data option" where
  "data_wrapper_data (DataWrapper n da shp t) = Some da"
| "data_wrapper_data _ = None"

definition bound_arguments :: "(string, array) dict \<Rightarrow> (string, array_data) dict" where
  "bound_arguments ns =
     dict_of_items
       (concat (map (\<lambda>(name, val). case data_wrapper_data val of
                                       Some da \<Rightarrow> [(name, da)] | None \<Rightarrow> [])
                  ns))"

text \<open>
  \<^verbatim>\<open>generate_loopy(result)\<close> for a \<^verbatim>\<open>DictOfNamedArrays\<close> with the items \<open>outputs\<close> and the
  namespace \<open>ns\<close> (\<^verbatim>\<open>outputs.namespace\<close>); a single array is first wrapped as the output
  \<^verbatim>\<open>_pt_out\<close>. \<open>generate_loopy_state\<close> is the lowering state at the end of the call,
  \<open>generate_loopy\<close> what \<^verbatim>\<open>bind_program\<close> is given: the kernel and the bound arguments.
\<close>

definition generate_loopy_state ::
  "array_attributes \<Rightarrow> nat \<Rightarrow> (string, array) dict \<Rightarrow> (string, array) dict
   \<Rightarrow> error + codegen_state" where
  "generate_loopy_state A depth ns outputs =
     (case generate_code A depth outputs (initial_state ns outputs) of
        Inl e \<Rightarrow> Inl e
      | Inr (_, s) \<Rightarrow> Inr s)"

definition generate_loopy ::
  "array_attributes \<Rightarrow> nat \<Rightarrow> (string, array) dict \<Rightarrow> (string, array) dict
   \<Rightarrow> error + (loop_kernel \<times> (string, array_data) dict)" where
  "generate_loopy A depth ns outputs =
     (case generate_loopy_state A depth ns outputs of
        Inl e \<Rightarrow> Inl e
      | Inr s \<Rightarrow> Inr (kernel s, bound_arguments ns))"

section \<open>Properties of the generated names and of dictionaries\<close>




























section \<open>Stored results\<close>

text \<open>
  C10. \<^verbatim>\<open>StoredResult.to_loopy_expression\<close> always returns; it adds the result's own
  dependency set to the context's dependency accumulator and leaves the context's
  reduction-bound map and local namespace as they were; the expression it returns is
  the bare buffer variable when the index tuple is empty and the buffer variable
  subscripted with the indices otherwise.
\<close>

theorem stored_to_loopy_expression_frame:
  "\<exists>e ctx'. to_loopy_expression (StoredResult name deps) indices ctx = Inr (e, ctx')
     \<and> depends_on ctx' = depends_on ctx \<union> deps
     \<and> reduction_bounds ctx' = reduction_bounds ctx
     \<and> local_namespace ctx' = local_namespace ctx
     \<and> ctx' = ctx\<lparr>depends_on := depends_on ctx \<union> deps\<rparr>
     \<and> e = (if indices = [] then Variable name else Subscript (Variable name) indices)"
  by (simp add: update_depends_on_def)

theorem stored_to_loopy_expression_frame_witness:
  "\<exists>e ctx'. to_loopy_expression (StoredResult ''a'' {''a_store''}) [Variable ''_0'']
        \<lparr>depends_on = {''b_store''}, local_namespace = [],
         reduction_bounds = [(''_r0'', Constant 0, Constant 4)]\<rparr> = Inr (e, ctx')
     \<and> depends_on ctx' = {''b_store'', ''a_store''}
     \<and> reduction_bounds ctx' = [(''_r0'', Constant 0, Constant 4)]
     \<and> local_namespace ctx' = []
     \<and> e = Subscript (Variable ''a'') [Variable ''_0'']"
  using stored_to_loopy_expression_frame [of "''a''" "{''a_store''}" "[Variable ''_0'']"
      "\<lparr>depends_on = {''b_store''}, local_namespace = [],
         reduction_bounds = [(''_r0'', Constant 0, Constant 4)]\<rparr>"]
  by auto

section \<open>Inlined results\<close>




section \<open>Domain construction\<close>



section \<open>The walk\<close>

















section \<open>Dependencies\<close>








declare dep_rec.simps [simp del]












section \<open>Copying\<close>

declare copy_rec.simps [simp del]

lemma copy_identity:
  "cache_id c \<Longrightarrow> copy_supported n \<Longrightarrow> \<exists>c'. copy_rec n c = Inr (n, c') \<and> cache_id c'"
  "cache_id c \<Longrightarrow> copy_supported n \<Longrightarrow> \<exists>c'. copy_dispatch n c = Inr (n, c') \<and> cache_id c'"
  "cache_id c \<Longrightarrow> list_all copy_supported xs \<Longrightarrow>
     \<exists>c'. copy_arrays xs c = Inr (xs, c') \<and> cache_id c'"
  "cache_id c \<Longrightarrow> copy_supported_dims shp \<Longrightarrow>
     \<exists>c'. copy_shape shp c = Inr (shp, c') \<and> cache_id c'"
  "cache_id c \<Longrightarrow> list_all (\<lambda>p. copy_supported (snd p)) b \<Longrightarrow>
     \<exists>c'. copy_bindings b c = Inr (b, c') \<and> cache_id c'"
proof (induction n c and n c and xs c and shp c and b c
    rule: copy_rec_copy_dispatch_copy_arrays_copy_shape_copy_bindings.induct)
  case (1 expr cache)
  show ?case
  proof (cases "cache expr")
    case (Some v)
    with "1.prems"(1) have "v = expr" by (simp add: cache_id_def)
    with Some "1.prems"(1) show ?thesis by (simp add: copy_rec.simps)
  next
    case None
    from "1.IH" [OF None "1.prems"] obtain c1 where
      d: "copy_dispatch expr cache = Inr (expr, c1)" and ok: "cache_id c1" by blast
    from ok have "cache_id (c1(expr \<mapsto> expr))" by (auto simp: cache_id_def)
    with None d show ?thesis by (simp add: copy_rec.simps)
  qed
next
  case (2 e shp d b t cache)
  from "2.prems"(2) have sb: "list_all (\<lambda>p. copy_supported (snd p)) b"
    and ss: "copy_supported_dims shp" by simp_all
  from "2.IH"(1) [OF "2.prems"(1) sb] obtain c1 where
    b: "copy_bindings b cache = Inr (b, c1)" and ok1: "cache_id c1" by blast
  from "2.IH"(2) [OF b refl ok1 ss] obtain c2 where
    s: "copy_shape shp c1 = Inr (shp, c2)" and ok2: "cache_id c2" by blast
  from b s ok2 show ?case by simp
next
  case (3 n shp d t cache)
  from "3.IH" [OF "3.prems"(1)] "3.prems"(2) show ?case by auto
next
  case (4 x1 x2 t cache)
  from "4.prems"(2) have s1: "copy_supported x1" and s2: "copy_supported x2" by simp_all
  from "4.IH"(1) [OF "4.prems"(1) s1] obtain c1 where
    a: "copy_rec x1 cache = Inr (x1, c1)" and ok1: "cache_id c1" by blast
  from "4.IH"(2) [OF a refl ok1 s2] obtain c2 where
    b: "copy_rec x2 c1 = Inr (x2, c2)" and ok2: "cache_id c2" by blast
  from a b ok2 show ?case by simp
next
  case (5 xs ax t cache)
  from "5.IH" [OF "5.prems"(1)] "5.prems"(2) show ?case by auto
next
  case (6 a sh ax t cache)
  from "6.IH" [OF "6.prems"(1)] "6.prems"(2) show ?case by auto
next
  case (7 a axes t cache)
  from "7.IH" [OF "7.prems"(1)] "7.prems"(2) show ?case by auto
next
  case (8 a starts stops t cache)
  from "8.IH" [OF "8.prems"(1)] "8.prems"(2) show ?case by auto
next
  case (9 n da shp t cache)
  from "9.IH" [OF "9.prems"(1)] "9.prems"(2) show ?case by auto
next
  case (10 n t cache)
  then show ?case by simp
next
  case (11 a cache)
  then show ?case by simp
next
  case (12 a ns t cache)
  then show ?case by simp
next
  case (13 xs ax t cache)
  then show ?case by simp
next
  case (14 a cache)
  then show ?case by simp
next
  case (15 cache)
  then show ?case by simp
next
  case (16 arr rest cache)
  from "16.prems"(2) have s1: "copy_supported arr" and s2: "list_all copy_supported rest"
    by simp_all
  from "16.IH"(1) [OF "16.prems"(1) s1] obtain c1 where
    a: "copy_rec arr cache = Inr (arr, c1)" and ok1: "cache_id c1" by blast
  from "16.IH"(2) [OF a refl ok1 s2] obtain c2 where
    b: "copy_arrays rest c1 = Inr (rest, c2)" and ok2: "cache_id c2" by blast
  from a b ok2 show ?case by simp
next
  case (17 cache)
  then show ?case by simp
next
  case (18 e rest cache)
  from "18.IH" [OF "18.prems"(1)] "18.prems"(2) show ?case by auto
next
  case (19 a rest cache)
  from "19.prems"(2) have s1: "copy_supported a" and s2: "copy_supported_dims rest"
    by simp_all
  from "19.IH"(1) [OF "19.prems"(1) s1] obtain c1 where
    a: "copy_rec a cache = Inr (a, c1)" and ok1: "cache_id c1" by blast
  from "19.IH"(2) [OF a refl ok1 s2] obtain c2 where
    b: "copy_shape rest c1 = Inr (rest, c2)" and ok2: "cache_id c2" by blast
  from a b ok2 show ?case by simp
next
  case (20 cache)
  then show ?case by simp
next
  case (21 name subexpr rest cache)
  from "21.prems"(2) have s1: "copy_supported subexpr"
    and s2: "list_all (\<lambda>p. copy_supported (snd p)) rest" by simp_all
  from "21.IH"(1) [OF "21.prems"(1) s1] obtain c1 where
    a: "copy_rec subexpr cache = Inr (subexpr, c1)" and ok1: "cache_id c1" by blast
  from "21.IH"(2) [OF a refl ok1 s2] obtain c2 where
    b: "copy_bindings rest c1 = Inr (rest, c2)" and ok2: "cache_id c2" by blast
  from a b ok2 show ?case by simp
qed

text \<open>
  C5 does not hold of the code: \<^verbatim>\<open>CopyMapper\<close> has no \<^verbatim>\<open>map_reshape\<close> and no
  \<^verbatim>\<open>map_concatenate\<close> (and no \<^verbatim>\<open>map_distributed_recv\<close>), so copying a \<^verbatim>\<open>Reshape\<close> or a
  \<^verbatim>\<open>Concatenate\<close> node raises \<^verbatim>\<open>UnsupportedArrayError\<close>, whereas \<^verbatim>\<open>DependencyMapper\<close> in the
  same file handles the same node.
\<close>

theorem copy_mapper_unsupported_kinds:
  "copy_rec (Reshape (Placeholder ''x'' [ScalarDim (Constant 4)] ''float64'' []) [2, 2] [])
      Map.empty = Inl UnsupportedArrayError
   \<and> copy_rec (Concatenate [Placeholder ''x'' [ScalarDim (Constant 4)] ''float64'' []] 0 [])
      Map.empty = Inl UnsupportedArrayError
   \<and> dep_rec (Reshape (Placeholder ''x'' [ScalarDim (Constant 4)] ''float64'' []) [2, 2] [])
      Map.empty
      = Inr ({Reshape (Placeholder ''x'' [ScalarDim (Constant 4)] ''float64'' []) [2, 2] [],
              Placeholder ''x'' [ScalarDim (Constant 4)] ''float64'' []},
             [Placeholder ''x'' [ScalarDim (Constant 4)] ''float64'' []
                \<mapsto> {Placeholder ''x'' [ScalarDim (Constant 4)] ''float64'' []},
              Reshape (Placeholder ''x'' [ScalarDim (Constant 4)] ''float64'' []) [2, 2] []
                \<mapsto> {Reshape (Placeholder ''x'' [ScalarDim (Constant 4)] ''float64'' []) [2, 2] [],
                    Placeholder ''x'' [ScalarDim (Constant 4)] ''float64'' []}])"
  by (auto simp add: copy_rec.simps dep_rec.simps combine_def)

text \<open>
  On the kinds \<^verbatim>\<open>CopyMapper\<close> has rules for, a fresh mapper returns a node equal to the
  original; copying again with the same mapper returns it from the cache; and every cache
  entry maps a node to an equal node, so equal (shared) nodes of the input get one and
  the same copy.
\<close>

theorem copy_mapper_identity:
  assumes "copy_supported expr"
  shows "\<exists>cache. copy_rec expr Map.empty = Inr (expr, cache)
      \<and> copy_rec expr cache = Inr (expr, cache)
      \<and> (\<forall>k v. cache k = Some v \<longrightarrow> v = k)"
proof -
  have "cache_id Map.empty" by (simp add: cache_id_def)
  from copy_identity(1) [OF this assms] obtain cache where
    c: "copy_rec expr Map.empty = Inr (expr, cache)" and ok: "cache_id cache" by blast
  have "cache expr = Some expr"
    using c by (auto simp: copy_rec.simps split: option.splits sum.splits)
  then have "copy_rec expr cache = Inr (expr, cache)" by (simp add: copy_rec.simps)
  with c ok show ?thesis unfolding cache_id_def by blast
qed

theorem copy_mapper_identity_witness:
  "\<exists>cache. copy_rec (MatrixProduct (SizeParam ''n'' []) (SizeParam ''n'' []) []) Map.empty
        = Inr (MatrixProduct (SizeParam ''n'' []) (SizeParam ''n'' []) [], cache)"
proof -
  have "copy_supported (MatrixProduct (SizeParam ''n'' []) (SizeParam ''n'' []) [])" by simp
  from copy_mapper_identity [OF this] show ?thesis by blast
qed

end
